theory Spec2Isabelle
  imports Complex_Main "HOL-Library.Option_ord" "HOL-Library.Multiset" "HOL-Library.Char_ord"
    "HOL-Library.List_Lexorder"
begin

section \<open>Data model\<close>

text \<open>
  The retrieval pipeline of the repository: \<^verbatim>\<open>clients/relace.py\<close> (HTTP client),
  \<^verbatim>\<open>reranker/relace.py\<close> (reranker), \<^verbatim>\<open>embedder/relace.py\<close> (embedder),
  \<^verbatim>\<open>knowledge/retrievers/pinecone_relace/async_retriever.py\<close> (orchestrator with
  reranking) and \<^verbatim>\<open>services/pinecone_retriever.py\<close> (orchestrator without).

  A Python \<open>Optional\<close> is an \<open>option\<close>, with \<open>None\<close> for Python's \<^verbatim>\<open>None\<close>. A key of a
  dictionary that came from JSON is absent, present with \<^verbatim>\<open>null\<close>, or present with a value.
\<close>

datatype 'a entry = Absent | Null | Value 'a

text \<open>\<^verbatim>\<open>d.get(key, default)\<close>, \<^verbatim>\<open>d.get(key)\<close>, and the entry a Python value makes when it
  is written under a key.\<close>

definition get_or :: "'a entry \<Rightarrow> 'a \<Rightarrow> 'a option" where
  "get_or e d = (case e of Absent \<Rightarrow> Some d | Null \<Rightarrow> None | Value v \<Rightarrow> Some v)"

definition get_none :: "'a entry \<Rightarrow> 'a option" where
  "get_none e = (case e of Absent \<Rightarrow> None | Null \<Rightarrow> None | Value v \<Rightarrow> Some v)"

definition written :: "'a option \<Rightarrow> 'a entry" where
  "written x = (case x of None \<Rightarrow> Null | Some v \<Rightarrow> Value v)"

text \<open>The metadata dictionary of a vector-index record, restricted to the keys the code reads
  or writes.\<close>

record metadata =
  md_content :: "string entry"
  md_file_path :: "string entry"
  md_language :: "string entry"
  md_function_name :: "string entry"
  md_class_name :: "string entry"
  md_repo_id :: "string entry"
  md_namespace :: "string entry"
  md_pinecone_score :: "real entry"

definition empty_metadata :: metadata where
  "empty_metadata = \<lparr>md_content = Absent, md_file_path = Absent, md_language = Absent,
     md_function_name = Absent, md_class_name = Absent, md_repo_id = Absent,
     md_namespace = Absent, md_pinecone_score = Absent\<rparr>"

text \<open>
  The value under the key \<^verbatim>\<open>score\<close> of a rerank result. The code never checks its type:
  it stores it in the Document and later compares the stored values. \<^verbatim>\<open>null\<close> is Python's
  \<^verbatim>\<open>None\<close>; a number is a \<open>real\<close> (a JSON boolean compares as the number 1 or 0 and is
  that number here); two strings compare with each other but not with a number; an object
  compares with nothing. A JSON array as a score is not represented: what sorting arrays
  does depends on which pairs the sort happens to compare; nor is \<^verbatim>\<open>NaN\<close>, which no
  order places.
\<close>

datatype json_score = JNull | JNumber real | JText string | JObject

text \<open>The value under the key \<^verbatim>\<open>filename\<close>: a string; another hashable value (number,
  boolean, \<^verbatim>\<open>null\<close>), which is never equal to a string; or an unhashable one (array, object),
  on which a dictionary lookup raises \<^verbatim>\<open>TypeError\<close>.\<close>

datatype json_filename = FileText string | FileOther | FileUnhashable

text \<open>\<^verbatim>\<open>agno.document.Document\<close>, with the fields the pipeline touches. It is a dataclass
  and checks no type, so \<open>reranking_score\<close> holds whatever was assigned.\<close>

record document =
  doc_content :: "string option"
  doc_id :: "string option"
  doc_name :: "string option"
  meta_data :: "metadata option"
  reranking_score :: json_score

text \<open>What a function does beyond returning: the provider calls it makes and the warnings and
  errors it logs, in order.\<close>

datatype event =
    SearchCall string int "string option"
  | RerankPost string "(string \<times> string option) list" int
  | ListIndexes
  | EmbedPost "string list"
  | IndexQuery "real list" int "string option"
  | LogWarning string
  | LogError string

fun is_network :: "event \<Rightarrow> bool" where
  "is_network (LogWarning _) = False"
| "is_network (LogError _) = False"
| "is_network _ = True"

definition network_calls :: "event list \<Rightarrow> event list" where
  "network_calls evs = filter is_network evs"


fun is_warning :: "event \<Rightarrow> bool" where
  "is_warning (LogWarning _) = True"
| "is_warning _ = False"

datatype exn =
    RelaceAPIError int
  | TransportFailure
  | JsonDecodeError
  | KeyError string
  | TypeError
  | AttributeError

section \<open>Rerank client: \<^verbatim>\<open>RelaceClient.rank_code_files\<close>\<close>

text \<open>One element of the provider's result list: anything that is not a JSON object, or an
  object in which each of the keys \<^verbatim>\<open>filename\<close> and \<^verbatim>\<open>score\<close> is present, with any
  value, or not. The client and the reranker test the presence of the keys only.\<close>

datatype item = NonDictItem | DictItem "json_filename option" "json_score option"

fun valid_item :: "item \<Rightarrow> bool" where
  "valid_item (DictItem (Some filename) (Some score)) = True"
| "valid_item _ = False"

datatype results_value = ResultsList "item list" | ResultsNotList

datatype rerank_body =
    NotJson
  | Envelope results_value
  | BareList "item list"
  | OtherJson

text \<open>What the rerank endpoint does with the one POST of a call.\<close>

datatype rerank_reply = RerankTransportFailure | RerankHttp int rerank_body

definition skipped_warnings :: "item list \<Rightarrow> event list" where
  "skipped_warnings items =
     map (\<lambda>_. LogWarning ''Skipping invalid result item'') (filter (\<lambda>it. \<not> valid_item it) items)"

definition rank_code_files ::
  "rerank_reply \<Rightarrow> string \<Rightarrow> (string \<times> string option) list \<Rightarrow> int \<Rightarrow>
     (exn + item list) \<times> event list" where
  "rank_code_files reply query codebase token_limit =
     (if codebase = [] then (Inr [], [LogWarning ''Empty codebase provided for ranking''])
      else
        let post = RerankPost query codebase token_limit in
        case reply of
          RerankTransportFailure \<Rightarrow>
            (Inl TransportFailure, [post, LogError ''Failed to rank code files''])
        | RerankHttp status body \<Rightarrow>
            if status = 200 then
              (case body of
                 NotJson \<Rightarrow> (Inl JsonDecodeError, [post, LogError ''Failed to rank code files''])
               | Envelope (ResultsList results_list) \<Rightarrow>
                   (Inr (filter valid_item results_list), post # skipped_warnings results_list)
               | Envelope ResultsNotList \<Rightarrow> (Inr [], [post, LogError ''Results is not a list''])
               | BareList result \<Rightarrow> (Inr (filter valid_item result), post # skipped_warnings result)
               | OtherJson \<Rightarrow>
                   (Inr [], [post, LogError ''Unexpected reranker response structure'']))
            else
              (Inl (RelaceAPIError status),
               [post, LogError ''Code ranking failed'', LogError ''Failed to rank code files'']))"

text \<open>\<^verbatim>\<open>rank_code_files_sync\<close> repeats the same steps over \<^verbatim>\<open>requests\<close>; only the text
  of the last error message differs.\<close>

definition rank_code_files_sync ::
  "rerank_reply \<Rightarrow> string \<Rightarrow> (string \<times> string option) list \<Rightarrow> int \<Rightarrow>
     (exn + item list) \<times> event list" where
  "rank_code_files_sync reply query codebase token_limit =
     (if codebase = [] then (Inr [], [LogWarning ''Empty codebase provided for ranking''])
      else
        let post = RerankPost query codebase token_limit in
        case reply of
          RerankTransportFailure \<Rightarrow>
            (Inl TransportFailure, [post, LogError ''Error in sync code ranking''])
        | RerankHttp status body \<Rightarrow>
            if status = 200 then
              (case body of
                 NotJson \<Rightarrow> (Inl JsonDecodeError, [post, LogError ''Error in sync code ranking''])
               | Envelope (ResultsList results_list) \<Rightarrow>
                   (Inr (filter valid_item results_list), post # skipped_warnings results_list)
               | Envelope ResultsNotList \<Rightarrow> (Inr [], [post, LogError ''Results is not a list''])
               | BareList result \<Rightarrow> (Inr (filter valid_item result), post # skipped_warnings result)
               | OtherJson \<Rightarrow>
                   (Inr [], [post, LogError ''Unexpected reranker response structure'']))
            else
              (Inl (RelaceAPIError status),
               [post, LogError ''Code ranking failed'', LogError ''Error in sync code ranking'']))"

section \<open>Reranker: \<^verbatim>\<open>RelaceReranker\<close>\<close>

record reranker =
  top_n :: "int option"
  token_limit :: int

text \<open>Python's \<^verbatim>\<open>str(i)\<close> for a list index, and the f-string \<^verbatim>\<open>f"doc_{i}.txt"\<close>.\<close>

fun str_nat :: "nat \<Rightarrow> string" where
  "str_nat n =
     (if n < 10 then [''0123456789'' ! n]
      else str_nat (n div 10) @ [''0123456789'' ! (n mod 10)])"

declare str_nat.simps [simp del]

definition placeholder :: "nat \<Rightarrow> string" where
  "placeholder i = ''doc_'' @ str_nat i @ ''.txt''"

text \<open>\<^verbatim>\<open>doc.name or f"doc_{i}.txt"\<close>: \<^verbatim>\<open>None\<close> and the empty string are both falsy.\<close>

definition filename_of :: "nat \<Rightarrow> document \<Rightarrow> string" where
  "filename_of i doc =
     (case doc_name doc of
        None \<Rightarrow> placeholder i
      | Some n \<Rightarrow> if n = [] then placeholder i else n)"

definition make_codebase :: "document list \<Rightarrow> (string \<times> string option) list" where
  "make_codebase documents =
     map (\<lambda>(i, doc). (filename_of i doc, doc_content doc)) (enumerate 0 documents)"

text \<open>
  \<^verbatim>\<open>filename_to_doc\<close> maps a filename to a reference to a Document. The Documents of one
  call are the elements of the list \<^verbatim>\<open>documents\<close>, so a reference is an index into that list,
  and the list is the store in which \<^verbatim>\<open>doc.reranking_score = score\<close> is an update.
\<close>

definition build_filename_to_doc :: "document list \<Rightarrow> (string \<rightharpoonup> nat)" where
  "build_filename_to_doc documents =
     fold (\<lambda>(i, doc) m. m(filename_of i doc \<mapsto> i)) (enumerate 0 documents) Map.empty"

text \<open>
  The loop over \<^verbatim>\<open>results_list\<close>. The state is the store and the references appended to
  \<^verbatim>\<open>compressed_docs\<close>. \<^verbatim>\<open>filename in filename_to_doc\<close> raises \<^verbatim>\<open>TypeError\<close> on an
  unhashable filename; the loop then stops with the state it has reached.
\<close>

fun match_items ::
  "(string \<rightharpoonup> nat) \<Rightarrow> item list \<Rightarrow> document list \<times> nat list \<Rightarrow>
     (document list \<times> nat list) \<times> exn option" where
  "match_items filename_to_doc [] st = (st, None)"
| "match_items filename_to_doc (NonDictItem # items) st = match_items filename_to_doc items st"
| "match_items filename_to_doc (DictItem None score # items) st =
     match_items filename_to_doc items st"
| "match_items filename_to_doc (DictItem (Some filename) None # items) st =
     match_items filename_to_doc items st"
| "match_items filename_to_doc (DictItem (Some FileUnhashable) (Some score) # items) st =
     (st, Some TypeError)"
| "match_items filename_to_doc (DictItem (Some FileOther) (Some score) # items) st =
     match_items filename_to_doc items st"
| "match_items filename_to_doc (DictItem (Some (FileText filename)) (Some score) # items)
     (store, compressed_docs) =
     (case filename_to_doc filename of
        Some i \<Rightarrow>
          match_items filename_to_doc items
            (store[i := (store ! i)\<lparr>reranking_score := score\<rparr>], compressed_docs @ [i])
      | None \<Rightarrow> match_items filename_to_doc items (store, compressed_docs))"

definition match_results ::
  "document list \<Rightarrow> item list \<Rightarrow> (document list \<times> nat list) \<times> exn option" where
  "match_results documents results_list =
     match_items (build_filename_to_doc documents) results_list (documents, [])"

text \<open>\<^verbatim>\<open>list.sort(key=..., reverse=True)\<close> on keys that all compare: CPython reverses the
  list, sorts it stably in ascending order and reverses it again, so that equal keys keep
  their order.\<close>

definition py_sort_reverse :: "('a \<Rightarrow> 'k::linorder) \<Rightarrow> 'a list \<Rightarrow> 'a list" where
  "py_sort_reverse key xs = rev (sort_key key (rev xs))"

text \<open>
  The sort key is \<^verbatim>\<open>x.reranking_score if x.reranking_score is not None else float("-inf")\<close>.
  Numbers and \<^verbatim>\<open>None\<close> sort as an \<open>option\<close>, with \<open>None\<close> below every number. Strings sort
  among themselves in the order of their code points. A string against a number, and an
  object against anything, raises \<^verbatim>\<open>TypeError\<close>; a sort of two or more keys must compare
  across any two kinds present, and a sort of at most one key compares nothing.
\<close>

fun is_number_or_null :: "json_score \<Rightarrow> bool" where
  "is_number_or_null JNull = True"
| "is_number_or_null (JNumber r) = True"
| "is_number_or_null _ = False"

fun is_text :: "json_score \<Rightarrow> bool" where
  "is_text (JText s) = True"
| "is_text _ = False"

fun number_key :: "json_score \<Rightarrow> real option" where
  "number_key (JNumber r) = Some r"
| "number_key _ = None"

fun text_key :: "json_score \<Rightarrow> string" where
  "text_key (JText s) = s"
| "text_key _ = []"

definition sort_compressed :: "document list \<Rightarrow> nat list \<Rightarrow> exn + nat list" where
  "sort_compressed store compressed_docs =
     (if list_all (\<lambda>i. is_number_or_null (reranking_score (store ! i))) compressed_docs
      then Inr (py_sort_reverse (\<lambda>i. number_key (reranking_score (store ! i))) compressed_docs)
      else if list_all (\<lambda>i. is_text (reranking_score (store ! i))) compressed_docs
      then Inr (py_sort_reverse (\<lambda>i. text_key (reranking_score (store ! i))) compressed_docs)
      else if length compressed_docs \<le> 1 then Inr compressed_docs
      else Inl TypeError)"

text \<open>The slice \<^verbatim>\<open>xs[:n]\<close>; a negative \<open>n\<close> counts from the end.\<close>

definition py_take :: "int \<Rightarrow> 'a list \<Rightarrow> 'a list" where
  "py_take n xs = (if 0 \<le> n then take (nat n) xs else take (length xs - nat (- n)) xs)"

text \<open>What the reranker does with the list the client returned, up to the sort: the store
  as the loop left it, and the sorted references or the exception that was raised.\<close>

definition process_response :: "document list \<Rightarrow> item list \<Rightarrow> document list \<times> (exn + nat list)" where
  "process_response documents results_list =
     (case match_results documents results_list of
        ((store, compressed_docs), Some e) \<Rightarrow> (store, Inl e)
      | ((store, compressed_docs), None) \<Rightarrow> (store, sort_compressed store compressed_docs))"

text \<open>
  \<^verbatim>\<open>_rerank_async\<close>. Every exception inside its \<^verbatim>\<open>try\<close> is caught and answered with the
  list \<^verbatim>\<open>documents\<close>, whose Documents carry the scores assigned before the exception: the
  store. So the function is total and the handlers of its callers (\<^verbatim>\<open>rerank_async\<close>, the
  retriever) never run.
\<close>

definition rerank_async_body ::
  "reranker \<Rightarrow> rerank_reply \<Rightarrow> string \<Rightarrow> document list \<Rightarrow> document list \<times> event list" where
  "rerank_async_body self reply query documents =
     (if documents = [] then ([], [])
      else
        case (case top_n self of
                None \<Rightarrow> (None, [])
              | Some n \<Rightarrow>
                  if n \<noteq> 0 \<and> \<not> 0 < n
                  then (None, [LogWarning ''top_n should be a positive integer''])
                  else (Some n, [])) of
          (checked_top_n, warned) \<Rightarrow>
            (case rank_code_files reply query (make_codebase documents) (token_limit self) of
               (Inl e, evs) \<Rightarrow> (documents, warned @ evs @ [LogError ''Error reranking documents''])
             | (Inr results_list, evs) \<Rightarrow>
                 (case process_response documents results_list of
                    (store, Inl e) \<Rightarrow>
                      (store, warned @ evs @ [LogError ''Error reranking documents''])
                  | (store, Inr compressed_docs) \<Rightarrow>
                      (map (\<lambda>i. store ! i)
                         (case checked_top_n of
                            None \<Rightarrow> compressed_docs
                          | Some n \<Rightarrow> if n \<noteq> 0 then py_take n compressed_docs else compressed_docs),
                       warned @ evs))))"

definition rerank_async ::
  "reranker \<Rightarrow> rerank_reply \<Rightarrow> string \<Rightarrow> document list \<Rightarrow> document list \<times> event list" where
  "rerank_async self reply query documents = rerank_async_body self reply query documents"

text \<open>\<^verbatim>\<open>_rerank\<close>, the synchronous path: no guard on an empty list, no warning, and the
  bound is checked where it is applied.\<close>

definition rerank_body ::
  "reranker \<Rightarrow> rerank_reply \<Rightarrow> string \<Rightarrow> document list \<Rightarrow> document list \<times> event list" where
  "rerank_body self reply query documents =
     (case rank_code_files_sync reply query (make_codebase documents) (token_limit self) of
        (Inl e, evs) \<Rightarrow> (documents, evs @ [LogError ''Error reranking documents''])
      | (Inr results_list, evs) \<Rightarrow>
          (case process_response documents results_list of
             (store, Inl e) \<Rightarrow> (store, evs @ [LogError ''Error reranking documents''])
           | (store, Inr compressed_docs) \<Rightarrow>
               (map (\<lambda>i. store ! i)
                  (case top_n self of
                     None \<Rightarrow> compressed_docs
                   | Some n \<Rightarrow>
                       if n \<noteq> 0 \<and> 0 < n then py_take n compressed_docs else compressed_docs),
                evs)))"

definition rerank ::
  "reranker \<Rightarrow> rerank_reply \<Rightarrow> string \<Rightarrow> document list \<Rightarrow> document list \<times> event list" where
  "rerank self reply query documents = rerank_body self reply query documents"

section \<open>Orchestrator with reranking: \<^verbatim>\<open>retriever\<close>\<close>

record environment =
  PINECONE_API_KEY :: "string option"
  RELACE_API_KEY :: "string option"
  PINECONE_INDEX_NAME :: "string option"

text \<open>Truthiness of an \<^verbatim>\<open>Optional[str]\<close>, \<^verbatim>\<open>x or d\<close>, and \<^verbatim>\<open>os.getenv(name, d)\<close> or
  \<^verbatim>\<open>kwargs.get(name, d)\<close> for a name that is set or not.\<close>

definition truthy :: "string option \<Rightarrow> bool" where
  "truthy x = (case x of None \<Rightarrow> False | Some v \<Rightarrow> v \<noteq> [])"

definition or_default :: "string option \<Rightarrow> string \<Rightarrow> string" where
  "or_default x d = (case x of None \<Rightarrow> d | Some v \<Rightarrow> if v = [] then d else v)"

definition get_default :: "'a option \<Rightarrow> 'a \<Rightarrow> 'a" where
  "get_default x d = (case x of None \<Rightarrow> d | Some v \<Rightarrow> v)"

text \<open>A record of the vector index as a dictionary or as a match object: \<^verbatim>\<open>id\<close>,
  \<^verbatim>\<open>score\<close>, \<^verbatim>\<open>metadata\<close>.\<close>

record raw_match =
  rm_id :: "string entry"
  rm_score :: "real entry"
  rm_metadata :: "metadata entry"

text \<open>An element of what \<^verbatim>\<open>vector_db.search\<close> returns: a Document, a dictionary, or
  anything else, of which the code only takes \<^verbatim>\<open>str(result)\<close>.\<close>

datatype hit = DocumentHit document | DictHit raw_match | OtherHit string

text \<open>\<^verbatim>\<open>PineconeDb.search\<close> belongs to the agent framework, not to this repository: it embeds
  the query and queries the index. Its outcome is an input of the model: it raises, returns
  something that is not a non-empty list, or returns a list.\<close>

datatype search_reply = SearchRaises | SearchNotList | SearchList "hit list"

text \<open>The Document built from a dictionary: \<^verbatim>\<open>Document(content=metadata.get('content', ''),
  id=result.get('id', ''), name=metadata.get('file_path', ''), meta_data={...})\<close>.\<close>

definition document_of_dict :: "string option \<Rightarrow> raw_match \<Rightarrow> metadata \<Rightarrow> document" where
  "document_of_dict namespace result metadata =
     \<lparr>doc_content = get_or (md_content metadata) [],
      doc_id = get_or (rm_id result) [],
      doc_name = get_or (md_file_path metadata) [],
      meta_data = Some
        \<lparr>md_content = Absent,
         md_file_path = written (get_or (md_file_path metadata) []),
         md_language = written (get_or (md_language metadata) []),
         md_function_name = written (get_none (md_function_name metadata)),
         md_class_name = written (get_none (md_class_name metadata)),
         md_repo_id = written (get_or (md_repo_id metadata) []),
         md_namespace = Value (or_default namespace ''default''),
         md_pinecone_score = written (get_or (rm_score result) 0)\<rparr>,
      reranking_score = JNull\<rparr>"

text \<open>
  One round of the loop over \<^verbatim>\<open>query_response\<close>. For a dictionary,
  \<^verbatim>\<open>result.get('metadata', {})\<close> is \<^verbatim>\<open>None\<close> when the key holds \<^verbatim>\<open>null\<close>, and the next
  \<^verbatim>\<open>metadata.get\<close> raises \<^verbatim>\<open>AttributeError\<close>.
\<close>

fun normalize_hit :: "string option \<Rightarrow> hit \<Rightarrow> exn + document" where
  "normalize_hit namespace (DocumentHit result) =
     (let r1 = (case meta_data result of
                  None \<Rightarrow> result
                | Some md \<Rightarrow>
                    if md_file_path md \<noteq> Absent
                    then result\<lparr>doc_name := get_none (md_file_path md)\<rparr>
                    else result);
          r2 = (case meta_data r1 of
                  None \<Rightarrow> r1
                | Some md \<Rightarrow>
                    if md_content md \<noteq> Absent \<and> \<not> truthy (doc_content r1)
                    then r1\<lparr>doc_content := get_none (md_content md)\<rparr>
                    else r1)
      in Inr (r2\<lparr>meta_data :=
                   Some ((get_default (meta_data r2) empty_metadata)
                           \<lparr>md_namespace := Value (or_default namespace ''default'')\<rparr>)\<rparr>))"
| "normalize_hit namespace (DictHit result) =
     (case rm_metadata result of
        Absent \<Rightarrow> Inr (document_of_dict namespace result empty_metadata)
      | Null \<Rightarrow> Inl AttributeError
      | Value metadata \<Rightarrow> Inr (document_of_dict namespace result metadata))"
| "normalize_hit namespace (OtherHit s) =
     Inr \<lparr>doc_content = Some [],
          doc_id = Some s,
          doc_name = Some [],
          meta_data = Some
            \<lparr>md_content = Absent,
             md_file_path = Value [],
             md_language = Value [],
             md_function_name = Null,
             md_class_name = Null,
             md_repo_id = Value [],
             md_namespace = Value (or_default namespace ''default''),
             md_pinecone_score = Value 0\<rparr>,
          reranking_score = JNull\<rparr>"

text \<open>The loop: the first exception ends it.\<close>

fun normalize_hits :: "string option \<Rightarrow> hit list \<Rightarrow> exn + document list" where
  "normalize_hits namespace [] = Inr []"
| "normalize_hits namespace (result # rest) =
     (case normalize_hit namespace result of
        Inl e \<Rightarrow> Inl e
      | Inr document \<Rightarrow>
          (case normalize_hits namespace rest of
             Inl e \<Rightarrow> Inl e
           | Inr documents \<Rightarrow> Inr (document # documents)))"

text \<open>The dictionary handed to the agent for one Document.\<close>

record formatted_document =
  fd_content :: "string option"
  fd_id :: "string option"
  fd_name :: "string option"
  fd_metadata :: metadata

definition format_document :: "document \<Rightarrow> formatted_document" where
  "format_document doc =
     \<lparr>fd_content = doc_content doc, fd_id = doc_id doc, fd_name = doc_name doc,
      fd_metadata = get_default (meta_data doc) empty_metadata\<rparr>"

text \<open>\<^verbatim>\<open>top_k_after_rerank or max(1, num_documents // 2)\<close>: zero is falsy; \<open>div\<close> on \<open>int\<close>
  rounds down as \<^verbatim>\<open>//\<close> does.\<close>

definition reranker_top_n :: "int option \<Rightarrow> int \<Rightarrow> int" where
  "reranker_top_n top_k_after_rerank num_documents =
     (case top_k_after_rerank of
        None \<Rightarrow> max 1 (num_documents div 2)
      | Some k \<Rightarrow> if k \<noteq> 0 then k else max 1 (num_documents div 2))"

text \<open>
  \<^verbatim>\<open>retriever(query, agent, namespace, rerank, top_k_after_rerank, **kwargs)\<close>. The last
  argument is \<^verbatim>\<open>kwargs.get('num_documents')\<close>, and \<open>rerank_on\<close> is the flag \<^verbatim>\<open>rerank\<close>.
  The result is Python's \<^verbatim>\<open>Optional[List]\<close>: \<open>None\<close> is the failure outcome, and what
  failed is in the log. Any exception, of the search or of the loop over its result, is
  caught at the end and answered with \<^verbatim>\<open>None\<close>.
\<close>

definition retriever ::
  "environment \<Rightarrow> search_reply \<Rightarrow> rerank_reply \<Rightarrow> string \<Rightarrow> string option \<Rightarrow> bool \<Rightarrow>
     int option \<Rightarrow> int option \<Rightarrow> formatted_document list option \<times> event list" where
  "retriever env search_reply rerank_reply query namespace rerank_on top_k_after_rerank kw_num_documents =
     (if \<not> truthy (PINECONE_API_KEY env)
      then (None, [LogError ''PINECONE_API_KEY environment variable is required''])
      else if \<not> truthy (RELACE_API_KEY env)
      then (None, [LogError ''RELACE_API_KEY environment variable is required''])
      else
        let num_documents = get_default kw_num_documents 5;
            reranker = \<lparr>top_n = Some (reranker_top_n top_k_after_rerank num_documents),
                        token_limit = 150000\<rparr>;
            search = SearchCall query num_documents (if truthy namespace then namespace else None)
        in case search_reply of
             SearchRaises \<Rightarrow> (None, [search, LogError ''Error during async retrieval''])
           | SearchNotList \<Rightarrow> (Some [], [search])
           | SearchList query_response \<Rightarrow>
               if query_response = [] then (Some [], [search])
               else
                 (case normalize_hits namespace query_response of
                    Inl e \<Rightarrow> (None, [search, LogError ''Error during async retrieval''])
                  | Inr documents \<Rightarrow>
                      (case (if rerank_on \<and> documents \<noteq> []
                             then rerank_async reranker rerank_reply query documents
                             else (documents, [])) of
                         (reranked, evs) \<Rightarrow>
                           (Some (map format_document reranked), search # evs))))"

section \<open>Embedding client and the orchestrator without reranking\<close>

text \<open>The JSON object of an embedding response: the lists under \<^verbatim>\<open>results\<close> and
  \<^verbatim>\<open>data\<close>; an element of a list has an \<^verbatim>\<open>embedding\<close> or not.\<close>

record embed_object =
  eb_results :: "real list option list entry"
  eb_data :: "real list option list entry"

datatype embed_json = EmbedNotJson | EmbedObject embed_object

datatype embed_reply = EmbedTransportFailure | EmbedHttp int embed_json

text \<open>\<^verbatim>\<open>RelaceEmbedder.get_embedding\<close> over \<^verbatim>\<open>RelaceClient.generate_embeddings_sync\<close>.\<close>

definition generate_embeddings_sync ::
  "embed_reply \<Rightarrow> string list \<Rightarrow> (exn + embed_object) \<times> event list" where
  "generate_embeddings_sync reply texts =
     (case reply of
        EmbedTransportFailure \<Rightarrow>
          (Inl TransportFailure, [EmbedPost texts, LogError ''Error in sync embedding generation''])
      | EmbedHttp status json \<Rightarrow>
          if status = 200 then
            (case json of
               EmbedNotJson \<Rightarrow>
                 (Inl JsonDecodeError,
                  [EmbedPost texts, LogError ''Error in sync embedding generation''])
             | EmbedObject result \<Rightarrow> (Inr result, [EmbedPost texts]))
          else
            (Inl (RelaceAPIError status),
             [EmbedPost texts, LogError ''Embedding generation failed'',
              LogError ''Error in sync embedding generation'']))"

definition first_embedding :: "real list option list \<Rightarrow> exn + real list" where
  "first_embedding entries =
     (case entries of
        [] \<Rightarrow> Inl (KeyError ''0'')
      | None # _ \<Rightarrow> Inl (KeyError ''embedding'')
      | Some embedding # _ \<Rightarrow> Inr embedding)"

text \<open>The list that \<^verbatim>\<open>key in d and len(d[key]) > 0\<close> looks at: none under an absent key,
  and \<^verbatim>\<open>len(None)\<close> raises \<^verbatim>\<open>TypeError\<close>.\<close>

definition field_entries :: "'a list entry \<Rightarrow> exn + 'a list" where
  "field_entries x =
     (case x of Absent \<Rightarrow> Inr [] | Null \<Rightarrow> Inl TypeError | Value entries \<Rightarrow> Inr entries)"

definition get_embedding :: "embed_reply \<Rightarrow> string \<Rightarrow> real list \<times> event list" where
  "get_embedding reply text =
     (case generate_embeddings_sync reply [text] of
        (Inl e, evs) \<Rightarrow> ([], evs @ [LogError ''Error getting embedding''])
      | (Inr response, evs) \<Rightarrow>
          (case field_entries (eb_results response) of
             Inl e \<Rightarrow> ([], evs @ [LogError ''Error getting embedding''])
           | Inr (first # rest) \<Rightarrow>
               (case first_embedding (first # rest) of
                  Inl e \<Rightarrow> ([], evs @ [LogError ''Error getting embedding''])
                | Inr embedding \<Rightarrow> (embedding, evs))
           | Inr [] \<Rightarrow>
               (case field_entries (eb_data response) of
                  Inl e \<Rightarrow> ([], evs @ [LogError ''Error getting embedding''])
                | Inr (first # rest) \<Rightarrow>
                    (case first_embedding (first # rest) of
                       Inl e \<Rightarrow> ([], evs @ [LogError ''Error getting embedding''])
                     | Inr embedding \<Rightarrow> (embedding, evs))
                | Inr [] \<Rightarrow> ([], evs @ [LogWarning ''No embeddings found in response'']))))"

datatype list_indexes_reply = ListIndexesRaises | IndexNames "string list"

text \<open>\<^verbatim>\<open>index.query\<close>: it raises, or returns an object without \<^verbatim>\<open>matches\<close>, or one
  with them.\<close>

datatype query_reply = QueryRaises | QueryWithoutMatches | QueryMatches "raw_match list"

record result_metadata =
  res_id :: "string option"
  res_file_path :: "string option"
  res_language :: "string option"
  res_function_name :: "string option"
  res_class_name :: "string option"
  res_repo_id :: "string option"
  res_namespace :: string

record knowledge_document =
  kd_text :: "string option"
  kd_score :: "real option"
  kd_metadata :: result_metadata

text \<open>\<^verbatim>\<open>getattr(match, 'metadata', {}) or {}\<close>: an absent, \<^verbatim>\<open>None\<close> or empty metadata is the
  empty dictionary.\<close>

definition convert_match :: "string option \<Rightarrow> raw_match \<Rightarrow> knowledge_document" where
  "convert_match repo_namespace match =
     (let metadata = get_default (get_none (rm_metadata match)) empty_metadata in
      \<lparr>kd_text = get_or (md_content metadata) [],
       kd_score = get_or (rm_score match) 0,
       kd_metadata =
         \<lparr>res_id = get_or (rm_id match) [],
          res_file_path = get_or (md_file_path metadata) [],
          res_language = get_or (md_language metadata) [],
          res_function_name = get_none (md_function_name metadata),
          res_class_name = get_none (md_class_name metadata),
          res_repo_id = get_or (md_repo_id metadata) [],
          res_namespace = or_default repo_namespace ''all''\<rparr>\<rparr>)"

text \<open>
  \<^verbatim>\<open>pinecone_retriever(query, agent, num_documents, repo_namespace)\<close>. Every exception is
  caught at the end and answered with \<^verbatim>\<open>None\<close>; the logged message carries the exception.
  \<^verbatim>\<open>raise_for_status\<close> raises unless the status is 2xx.
\<close>

definition pinecone_retriever ::
  "environment \<Rightarrow> list_indexes_reply \<Rightarrow> embed_reply \<Rightarrow> query_reply \<Rightarrow> string \<Rightarrow> int \<Rightarrow>
     string option \<Rightarrow> knowledge_document list option \<times> event list" where
  "pinecone_retriever env indexes embed_reply query_reply query num_documents repo_namespace =
     (if \<not> truthy (PINECONE_API_KEY env)
      then (None, [LogError ''PINECONE_API_KEY environment variable is required''])
      else if \<not> truthy (RELACE_API_KEY env)
      then (None, [LogError ''RELACE_API_KEY environment variable is required''])
      else
        (case indexes of
           ListIndexesRaises \<Rightarrow> (None, [ListIndexes, LogError ''Error during Pinecone retrieval''])
         | IndexNames names \<Rightarrow>
             if get_default (PINECONE_INDEX_NAME env) ''codebase-index-v2'' \<notin> set names
             then (None, [ListIndexes, LogError ''Pinecone index not found''])
             else
               (case embed_reply of
                  EmbedTransportFailure \<Rightarrow>
                    (None,
                     [ListIndexes, EmbedPost [query], LogError ''Error during Pinecone retrieval''])
                | EmbedHttp status json \<Rightarrow>
                    if \<not> (200 \<le> status \<and> status < 300)
                    then (None,
                          [ListIndexes, EmbedPost [query],
                           LogError ''Error during Pinecone retrieval''])
                    else
                      (case json of
                         EmbedNotJson \<Rightarrow>
                           (None,
                            [ListIndexes, EmbedPost [query],
                             LogError ''Error during Pinecone retrieval''])
                       | EmbedObject data \<Rightarrow>
                           (case field_entries (eb_results data) of
                              Inl e \<Rightarrow>
                                (None,
                                 [ListIndexes, EmbedPost [query],
                                  LogError ''Error during Pinecone retrieval''])
                            | Inr [] \<Rightarrow>
                                (None,
                                 [ListIndexes, EmbedPost [query],
                                  LogError ''No embedding data in response''])
                            | Inr (first # rest) \<Rightarrow>
                                (case first_embedding (first # rest) of
                                   Inl e \<Rightarrow>
                                     (None,
                                      [ListIndexes, EmbedPost [query],
                                       LogError ''Error during Pinecone retrieval''])
                                 | Inr query_embedding \<Rightarrow>
                                     (case query_reply of
                                        QueryRaises \<Rightarrow>
                                          (None,
                                           [ListIndexes, EmbedPost [query],
                                            IndexQuery query_embedding num_documents
                                              (if truthy repo_namespace then repo_namespace
                                               else None),
                                            LogError ''Error during Pinecone retrieval''])
                                      | QueryWithoutMatches \<Rightarrow>
                                          (Some [],
                                           [ListIndexes, EmbedPost [query],
                                            IndexQuery query_embedding num_documents
                                              (if truthy repo_namespace then repo_namespace
                                               else None)])
                                      | QueryMatches matches \<Rightarrow>
                                          (Some (map (convert_match repo_namespace) matches),
                                           [ListIndexes, EmbedPost [query],
                                            IndexQuery query_embedding num_documents
                                              (if truthy repo_namespace then repo_namespace
                                               else None)]))))))))"

fun is_vector_search :: "event \<Rightarrow> bool" where
  "is_vector_search (SearchCall _ _ _) = True"
| "is_vector_search (IndexQuery _ _ _) = True"
| "is_vector_search _ = False"

fun posts_empty_codebase :: "event \<Rightarrow> bool" where
  "posts_empty_codebase (RerankPost _ codebase _) = (codebase = [])"
| "posts_empty_codebase _ = False"

section \<open>Descriptions used in the statements\<close>

text \<open>
  The properties below compare the loops of the reranker with a description that has no
  loop, no store and no reference in it. The pairs of a response are its items that carry
  both keys and a string as filename, in the provider's order; the score of a pair is any
  value, \<^verbatim>\<open>null\<close> included.
\<close>

fun response_pairs :: "item list \<Rightarrow> (string \<times> json_score) list" where
  "response_pairs [] = []"
| "response_pairs (DictItem (Some (FileText f)) (Some s) # items) = (f, s) # response_pairs items"
| "response_pairs (_ # items) = response_pairs items"

text \<open>The position of the last document sent under the filename \<open>f\<close>, if there is one.\<close>

definition last_named :: "document list \<Rightarrow> string \<Rightarrow> nat option" where
  "last_named documents f =
     (case filter (\<lambda>i. filename_of i (documents ! i) = f) (rev [0..<length documents]) of
        [] \<Rightarrow> None
      | i # _ \<Rightarrow> Some i)"

text \<open>The score of the last pair that names \<open>f\<close>.\<close>

definition last_score :: "(string \<times> json_score) list \<Rightarrow> string \<Rightarrow> json_score option" where
  "last_score pairs f = map_of (rev pairs) f"

text \<open>The references the matching loop collects: one per pair whose filename was sent.\<close>

definition matched_refs :: "document list \<Rightarrow> (string \<times> json_score) list \<Rightarrow> nat list" where
  "matched_refs documents pairs = List.map_filter (\<lambda>(f, s). last_named documents f) pairs"

text \<open>One entry per pair whose filename was sent, in the provider's order: the last document
  sent under that filename, carrying the score of the last pair that names it.\<close>

definition matched_documents ::
  "document list \<Rightarrow> (string \<times> json_score) list \<Rightarrow> document list" where
  "matched_documents documents pairs =
     List.map_filter
       (\<lambda>(f, s). case last_named documents f of
                   None \<Rightarrow> None
                 | Some i \<Rightarrow>
                     map_option (\<lambda>sc. (documents ! i)\<lparr>reranking_score := sc\<rparr>) (last_score pairs f))
       pairs"

text \<open>The matches in descending order of their scores, for scores that are numbers or
  \<^verbatim>\<open>null\<close>; \<^verbatim>\<open>null\<close> is below every number.\<close>

definition rerank_score :: "document \<Rightarrow> real option" where
  "rerank_score d = number_key (reranking_score d)"

definition ranked_matches :: "document list \<Rightarrow> item list \<Rightarrow> document list" where
  "ranked_matches documents results_list =
     py_sort_reverse rerank_score (matched_documents documents (response_pairs results_list))"

text \<open>A bound cuts a list only when it is strictly positive.\<close>

definition first_top_n :: "int option \<Rightarrow> 'a list \<Rightarrow> 'a list" where
  "first_top_n bound xs =
     (case bound of None \<Rightarrow> xs | Some n \<Rightarrow> if 0 < n then take (nat n) xs else xs)"

text \<open>The matching loop over pairs instead of items.\<close>

fun match_pair ::
  "(string \<rightharpoonup> nat) \<Rightarrow> string \<times> json_score \<Rightarrow> document list \<times> nat list \<Rightarrow>
     document list \<times> nat list" where
  "match_pair m (f, s) (store, refs) =
     (case m f of
        Some i \<Rightarrow> (store[i := (store ! i)\<lparr>reranking_score := s\<rparr>], refs @ [i])
      | None \<Rightarrow> (store, refs))"

text \<open>The items on which the matching loop raises, and the items it gets to.\<close>

fun raising_item :: "item \<Rightarrow> bool" where
  "raising_item (DictItem (Some FileUnhashable) (Some s)) = True"
| "raising_item _ = False"

definition reached_items :: "item list \<Rightarrow> item list" where
  "reached_items items = takeWhile (\<lambda>it. \<not> raising_item it) items"

text \<open>A response whose items, where they carry both keys, have a hashable filename and a
  number or \<^verbatim>\<open>null\<close> as score: what the provider's contract promises, and \<^verbatim>\<open>null\<close>.\<close>

fun numeric_item :: "item \<Rightarrow> bool" where
  "numeric_item (DictItem (Some filename) (Some score)) =
     (filename \<noteq> FileUnhashable \<and> is_number_or_null score)"
| "numeric_item _ = True"

definition numeric_response :: "item list \<Rightarrow> bool" where
  "numeric_response items = list_all numeric_item items"

text \<open>The response is processed when neither the matching loop nor the sort raises.\<close>

definition processed :: "document list \<Rightarrow> item list \<Rightarrow> bool" where
  "processed documents items =
     (case snd (process_response documents items) of Inl e \<Rightarrow> False | Inr refs \<Rightarrow> True)"



definition top_n_warning :: event where
  "top_n_warning = LogWarning ''top_n should be a positive integer''"




section \<open>Sample inputs\<close>

definition env_ok :: environment where
  "env_ok = \<lparr>PINECONE_API_KEY = Some ''pk'', RELACE_API_KEY = Some ''rk'',
              PINECONE_INDEX_NAME = None\<rparr>"

definition env_no_relace :: environment where
  "env_no_relace = \<lparr>PINECONE_API_KEY = Some ''pk'', RELACE_API_KEY = None,
                     PINECONE_INDEX_NAME = None\<rparr>"

definition body_without_fields :: embed_object where
  "body_without_fields = \<lparr>eb_results = Absent, eb_data = Absent\<rparr>"

definition doc_first :: document where
  "doc_first = \<lparr>doc_content = Some ''def login(): pass'', doc_id = Some ''id-1'',
                 doc_name = Some ''auth.py'', meta_data = None, reranking_score = JNull\<rparr>"

definition doc_second :: document where
  "doc_second = \<lparr>doc_content = Some ''def logout(): pass'', doc_id = Some ''id-2'',
                  doc_name = Some ''auth.py'', meta_data = None, reranking_score = JNull\<rparr>"

definition doc_third :: document where
  "doc_third = \<lparr>doc_content = Some ''def connect(): pass'', doc_id = Some ''id-3'',
                 doc_name = Some ''db.py'', meta_data = None, reranking_score = JNull\<rparr>"

definition scored :: "string \<Rightarrow> real \<Rightarrow> item" where
  "scored f r = DictItem (Some (FileText f)) (Some (JNumber r))"

definition two_scores :: rerank_reply where
  "two_scores = RerankHttp 200 (BareList [scored ''auth.py'' 0.5, scored ''db.py'' 0.9])"

definition one_score :: "item list" where
  "one_score = [scored ''auth.py'' 0.9]"

definition zero_reranker :: reranker where
  "zero_reranker = \<lparr>top_n = Some 0, token_limit = 150000\<rparr>"

definition negative_reranker :: reranker where
  "negative_reranker = \<lparr>top_n = Some (- 1), token_limit = 150000\<rparr>"

definition md_auth :: metadata where
  "md_auth = \<lparr>md_content = Value ''def login(): pass'', md_file_path = Value ''auth.py'',
     md_language = Value ''python'', md_function_name = Value ''login'', md_class_name = Null,
     md_repo_id = Value ''repoA'', md_namespace = Absent, md_pinecone_score = Absent\<rparr>"


definition raw_auth :: raw_match where
  "raw_auth = \<lparr>rm_id = Value ''id-1'', rm_score = Value 0.9, rm_metadata = Value md_auth\<rparr>"


definition hit_auth :: hit where
  "hit_auth = DictHit raw_auth"



definition hit_null_metadata :: hit where
  "hit_null_metadata = DictHit \<lparr>rm_id = Value ''id-9'', rm_score = Value 0.7, rm_metadata = Null\<rparr>"

definition null_score :: rerank_reply where
  "null_score = RerankHttp 200
     (BareList [DictItem (Some (FileText ''auth.py'')) (Some JNull), scored ''db.py'' 0.9])"

definition text_and_number :: rerank_reply where
  "text_and_number = RerankHttp 200
     (BareList [DictItem (Some (FileText ''auth.py'')) (Some (JText ''high'')),
                scored ''db.py'' 0.9])"





definition plain_reranker :: reranker where
  "plain_reranker = \<lparr>top_n = None, token_limit = 150000\<rparr>"

section \<open>The name map, the matching loop and the sort\<close>

lemma build_snoc:
  "build_filename_to_doc (xs @ [x]) =
     (build_filename_to_doc xs)(filename_of (length xs) x \<mapsto> length xs)"
  by (simp add: build_filename_to_doc_def enumerate_append_eq)

lemma last_named_snoc:
  "last_named (xs @ [x]) f =
     (if filename_of (length xs) x = f then Some (length xs) else last_named xs f)"
proof -
  have "filter (\<lambda>i. filename_of i ((xs @ [x]) ! i) = f) (rev [0..<length xs])
        = filter (\<lambda>i. filename_of i (xs ! i) = f) (rev [0..<length xs])"
    by (rule filter_cong) (auto simp: nth_append)
  then show ?thesis by (simp add: last_named_def)
qed

lemma build_is_last_named: "build_filename_to_doc documents = last_named documents"
proof (induction documents rule: rev_induct)
  case Nil
  show ?case by (rule ext) (simp add: build_filename_to_doc_def last_named_def)
next
  case (snoc x xs)
  show ?case by (rule ext) (simp add: build_snoc last_named_snoc snoc.IH)
qed

lemma last_named_Some_iff:
  "last_named documents f = Some i \<longleftrightarrow>
     i < length documents \<and> filename_of i (documents ! i) = f
     \<and> (\<forall>j. i < j \<and> j < length documents \<longrightarrow> filename_of j (documents ! j) \<noteq> f)"
proof (induction documents rule: rev_induct)
  case Nil
  show ?case by (simp add: last_named_def)
next
  case (snoc x xs)
  let ?n = "length xs"
  have nth_old: "\<And>k. k < ?n \<Longrightarrow> (xs @ [x]) ! k = xs ! k" by (simp add: nth_append)
  have nth_new: "(xs @ [x]) ! ?n = x" by simp
  show ?case
  proof (cases "filename_of ?n x = f")
    case True
    have "i = ?n" if "i < Suc ?n"
      and "\<forall>j. i < j \<and> j < Suc ?n \<longrightarrow> filename_of j ((xs @ [x]) ! j) \<noteq> f"
    proof (rule ccontr)
      assume "i \<noteq> ?n"
      with that(1) have "i < ?n" by simp
      with that(2) have "filename_of ?n ((xs @ [x]) ! ?n) \<noteq> f" by blast
      with True show False by simp
    qed
    then show ?thesis using True by (auto simp: last_named_snoc)
  next
    case False
    have "last_named (xs @ [x]) f = last_named xs f"
      using False by (simp add: last_named_snoc)
    moreover have "(i < Suc ?n \<and> filename_of i ((xs @ [x]) ! i) = f
        \<and> (\<forall>j. i < j \<and> j < Suc ?n \<longrightarrow> filename_of j ((xs @ [x]) ! j) \<noteq> f))
      \<longleftrightarrow> (i < ?n \<and> filename_of i (xs ! i) = f
        \<and> (\<forall>j. i < j \<and> j < ?n \<longrightarrow> filename_of j (xs ! j) \<noteq> f))" (is "?L \<longleftrightarrow> ?R")
    proof
      assume L: ?L
      then have "i \<noteq> ?n" using False by auto
      with L have i: "i < ?n" by simp
      with L have "filename_of i (xs ! i) = f" by (simp add: nth_old)
      moreover have "filename_of j (xs ! j) \<noteq> f" if "i < j" "j < ?n" for j
        using L that by (metis less_Suc_eq nth_old)
      ultimately show ?R using i by blast
    next
      assume R: ?R
      then have "filename_of i ((xs @ [x]) ! i) = f" by (simp add: nth_old)
      moreover have "filename_of j ((xs @ [x]) ! j) \<noteq> f" if "i < j" "j < Suc ?n" for j
      proof (cases "j = ?n")
        case True
        then show ?thesis using False by simp
      next
        case False
        with that have "j < ?n" by simp
        with R that show ?thesis by (simp add: nth_old)
      qed
      ultimately show ?L using R by auto
    qed
    ultimately show ?thesis using snoc.IH by simp
  qed
qed

lemma last_named_None_iff:
  "last_named documents f = None \<longleftrightarrow>
     (\<forall>i < length documents. filename_of i (documents ! i) \<noteq> f)"
proof (induction documents rule: rev_induct)
  case Nil
  show ?case by (simp add: last_named_def)
next
  case (snoc x xs)
  show ?case
    by (auto simp: last_named_snoc snoc.IH nth_append less_Suc_eq)
qed

lemma map_filter_append:
  "List.map_filter f (xs @ ys) = List.map_filter f xs @ List.map_filter f ys"
  by (simp add: List.map_filter_def)

lemma set_map_filter: "set (List.map_filter h xs) = {y. \<exists>x \<in> set xs. h x = Some y}"
  by (induction xs) (auto simp: map_filter_simps split: option.splits)

lemma match_items_fold:
  "match_items m items st =
     (fold (match_pair m) (response_pairs (reached_items items)) st,
      if list_ex raising_item items then Some TypeError else None)"
proof (induction m items st rule: match_items.induct)
  case (7 m filename score items store compressed_docs)
  then show ?case
    by (cases "m filename") (simp_all add: reached_items_def)
qed (simp_all add: reached_items_def)

lemma reached_items_all: "\<not> list_ex raising_item items \<Longrightarrow> reached_items items = items"
  by (simp add: reached_items_def list_ex_iff takeWhile_eq_all_conv)

lemma set_reached_items: "set (reached_items items) \<subseteq> set items"
  by (auto simp: reached_items_def dest: set_takeWhileD)

lemma last_score_snoc:
  "last_score (ps @ [(f, s)]) g = (if g = f then Some s else last_score ps g)"
  by (simp add: last_score_def)

lemma last_score_Some_if_mem: "(f, s) \<in> set ps \<Longrightarrow> \<exists>s'. last_score ps f = Some s'"
proof -
  assume "(f, s) \<in> set ps"
  then have "f \<in> fst ` set (rev ps)" by force
  then have "map_of (rev ps) f \<noteq> None" by (simp add: map_of_eq_None_iff)
  then show ?thesis by (auto simp: last_score_def)
qed

lemma last_score_mem: "last_score ps f = Some s \<Longrightarrow> (f, s) \<in> set ps"
  by (auto simp: last_score_def dest: map_of_SomeD)

text \<open>The store and the references after the matching loop.\<close>

lemma fold_match_pair:
  assumes "fold (match_pair (last_named documents)) ps (documents, []) = (store, refs)"
  shows "length store = length documents
    \<and> refs = matched_refs documents ps
    \<and> (\<forall>i < length documents.
          store ! i =
            (if last_named documents (filename_of i (documents ! i)) = Some i
             then (case last_score ps (filename_of i (documents ! i)) of
                     None \<Rightarrow> documents ! i
                   | Some s \<Rightarrow> (documents ! i)\<lparr>reranking_score := s\<rparr>)
             else documents ! i))"
  using assms
proof (induction ps arbitrary: store refs rule: rev_induct)
  case Nil
  then show ?case by (auto simp: last_score_def matched_refs_def map_filter_simps)
next
  case (snoc p ps)
  obtain f s where p: "p = (f, s)" by (cases p)
  obtain store0 refs0 where
    st0: "fold (match_pair (last_named documents)) ps (documents, []) = (store0, refs0)"
    by (cases "fold (match_pair (last_named documents)) ps (documents, [])")
  note IH = snoc.IH [OF st0]
  have step: "match_pair (last_named documents) (f, s) (store0, refs0) = (store, refs)"
    using snoc.prems by (simp add: p st0)
  show ?case
  proof (cases "last_named documents f")
    case None
    with step have eq: "store = store0" "refs = refs0" by simp_all
    have "last_score (ps @ [p]) (filename_of i (documents ! i))
          = last_score ps (filename_of i (documents ! i))"
      if "last_named documents (filename_of i (documents ! i)) = Some i" for i
      using that None by (auto simp: p last_score_snoc)
    then show ?thesis
      using IH None by (auto simp: eq p matched_refs_def map_filter_append map_filter_simps)
  next
    case (Some j)
    then have j: "j < length documents" "filename_of j (documents ! j) = f"
      by (simp_all add: last_named_Some_iff)
    from step Some have eq:
      "store = store0[j := (store0 ! j)\<lparr>reranking_score := s\<rparr>]" "refs = refs0 @ [j]"
      by simp_all
    have len: "length store0 = length documents" using IH by simp
    have nth: "store ! i =
            (if last_named documents (filename_of i (documents ! i)) = Some i
             then (case last_score (ps @ [p]) (filename_of i (documents ! i)) of
                     None \<Rightarrow> documents ! i
                   | Some s \<Rightarrow> (documents ! i)\<lparr>reranking_score := s\<rparr>)
             else documents ! i)" if i: "i < length documents" for i
    proof (cases "i = j")
      case True
      have "store ! j = (store0 ! j)\<lparr>reranking_score := s\<rparr>"
        using j len by (simp add: eq)
      moreover have "store0 ! j = documents ! j \<or>
          (\<exists>s'. store0 ! j = (documents ! j)\<lparr>reranking_score := s'\<rparr>)"
        using IH j by (auto split: option.splits)
      ultimately have "store ! j = (documents ! j)\<lparr>reranking_score := s\<rparr>" by auto
      then show ?thesis using True j Some by (simp add: p last_score_snoc)
    next
      case False
      then have same: "store ! i = store0 ! i" by (simp add: eq)
      have "last_score (ps @ [p]) (filename_of i (documents ! i))
            = last_score ps (filename_of i (documents ! i))"
        if "last_named documents (filename_of i (documents ! i)) = Some i"
        using that False Some by (auto simp: p last_score_snoc)
      then show ?thesis using IH i same by auto
    qed
    show ?thesis
      using nth len IH Some by (auto simp: eq p matched_refs_def map_filter_append map_filter_simps)
  qed
qed

lemma match_results_store:
  assumes "match_results documents items = ((store, refs), raised)"
  shows "length store = length documents"
    and "refs = matched_refs documents (response_pairs (reached_items items))"
    and "raised = (if list_ex raising_item items then Some TypeError else None)"
    and "\<And>i. i < length documents \<Longrightarrow>
          store ! i =
            (if last_named documents (filename_of i (documents ! i)) = Some i
             then (case last_score (response_pairs (reached_items items))
                          (filename_of i (documents ! i)) of
                     None \<Rightarrow> documents ! i
                   | Some s \<Rightarrow> (documents ! i)\<lparr>reranking_score := s\<rparr>)
             else documents ! i)"
proof -
  have f: "fold (match_pair (last_named documents)) (response_pairs (reached_items items))
             (documents, []) = (store, refs)"
    and r: "raised = (if list_ex raising_item items then Some TypeError else None)"
    using assms by (simp_all add: match_results_def build_is_last_named match_items_fold)
  from fold_match_pair [OF f] r
  show "length store = length documents"
    and "refs = matched_refs documents (response_pairs (reached_items items))"
    and "raised = (if list_ex raising_item items then Some TypeError else None)"
    and "\<And>i. i < length documents \<Longrightarrow>
          store ! i =
            (if last_named documents (filename_of i (documents ! i)) = Some i
             then (case last_score (response_pairs (reached_items items))
                          (filename_of i (documents ! i)) of
                     None \<Rightarrow> documents ! i
                   | Some s \<Rightarrow> (documents ! i)\<lparr>reranking_score := s\<rparr>)
             else documents ! i)"
    by simp_all
qed

text \<open>The store differs from the input list in the scores only.\<close>

lemma store_same_but_score:
  assumes "match_results documents items = ((store, refs), raised)" and "i < length documents"
  shows "\<exists>sc. store ! i = (documents ! i)\<lparr>reranking_score := sc\<rparr>"
proof -
  have "documents ! i = (documents ! i)\<lparr>reranking_score := reranking_score (documents ! i)\<rparr>"
    by simp
  then show ?thesis
    using match_results_store(4) [OF assms]
    by (metis option.case_eq_if)
qed

lemma format_store:
  assumes "match_results documents items = ((store, refs), raised)"
  shows "map format_document store = map format_document documents"
proof (rule nth_equalityI)
  show "length (map format_document store) = length (map format_document documents)"
    using match_results_store(1) [OF assms] by simp
next
  fix i assume "i < length (map format_document store)"
  then have i: "i < length documents" using match_results_store(1) [OF assms] by simp
  then obtain sc where "store ! i = (documents ! i)\<lparr>reranking_score := sc\<rparr>"
    using store_same_but_score [OF assms] by blast
  then show "map format_document store ! i = map format_document documents ! i"
    using i match_results_store(1) [OF assms] by (simp add: format_document_def)
qed

lemma deref_matched_sublist:
  assumes "match_results documents items = ((store, refs), raised)"
    and "set qs \<subseteq> set (response_pairs (reached_items items))"
  shows "map ((!) store) (matched_refs documents qs)
       = List.map_filter
           (\<lambda>(f, s). case last_named documents f of
                       None \<Rightarrow> None
                     | Some i \<Rightarrow>
                         map_option (\<lambda>sc. (documents ! i)\<lparr>reranking_score := sc\<rparr>)
                           (last_score (response_pairs (reached_items items)) f)) qs"
  using assms(2)
proof (induction qs)
  case Nil
  show ?case by (simp add: matched_refs_def map_filter_simps)
next
  case (Cons q qs)
  obtain f s where q: "q = (f, s)" by (cases q)
  from Cons.prems have mem: "(f, s) \<in> set (response_pairs (reached_items items))"
    and rest: "set qs \<subseteq> set (response_pairs (reached_items items))"
    by (simp_all add: q)
  show ?case
  proof (cases "last_named documents f")
    case None
    then show ?thesis using Cons.IH [OF rest] by (simp add: q matched_refs_def map_filter_simps)
  next
    case (Some i)
    then have i: "i < length documents" "filename_of i (documents ! i) = f"
      by (simp_all add: last_named_Some_iff)
    obtain s' where s': "last_score (response_pairs (reached_items items)) f = Some s'"
      using last_score_Some_if_mem [OF mem] by blast
    have "store ! i = (documents ! i)\<lparr>reranking_score := s'\<rparr>"
      using match_results_store(4) [OF assms(1) i(1)] i Some s' by simp
    then show ?thesis
      using Cons.IH [OF rest] Some s' by (simp add: q matched_refs_def map_filter_simps)
  qed
qed

lemma deref_matched:
  assumes "match_results documents items = ((store, refs), raised)"
  shows "map ((!) store) refs = matched_documents documents (response_pairs (reached_items items))"
  using deref_matched_sublist [OF assms subset_refl] match_results_store(2) [OF assms]
  by (simp add: matched_documents_def)

lemma insort_key_map:
  "insort_key k (g x) (map g xs) = map g (insort_key (\<lambda>y. k (g y)) x xs)"
  by (induction xs) simp_all

lemma sort_key_map: "sort_key k (map g xs) = map g (sort_key (\<lambda>y. k (g y)) xs)"
  by (induction xs) (simp_all add: insort_key_map)

lemma py_sort_reverse_map:
  "map g (py_sort_reverse (\<lambda>y. k (g y)) xs) = py_sort_reverse k (map g xs)"
  by (simp add: py_sort_reverse_def sort_key_map rev_map)

lemma mset_py_sort_reverse: "mset (py_sort_reverse k xs) = mset xs"
  by (simp add: py_sort_reverse_def)

lemma set_py_sort_reverse: "set (py_sort_reverse k xs) = set xs"
  by (simp add: py_sort_reverse_def)

lemma length_py_sort_reverse: "length (py_sort_reverse k xs) = length xs"
  by (simp add: py_sort_reverse_def)

lemma sorted_py_sort_reverse: "sorted_wrt (\<lambda>a b. k b \<le> k a) (py_sort_reverse k xs)"
proof -
  have "sorted (map k (sort_key k (rev xs)))" by (rule sorted_sort_key)
  then have "sorted_wrt (\<lambda>a b. k a \<le> k b) (sort_key k (rev xs))"
    by (simp add: sorted_wrt_map)
  then show ?thesis by (simp add: py_sort_reverse_def sorted_wrt_rev)
qed

lemma stable_py_sort_reverse:
  "filter (\<lambda>x. k x = c) (py_sort_reverse k xs) = filter (\<lambda>x. k x = c) xs"
proof -
  have "filter (\<lambda>x. k x = c) (sort_key k (rev xs)) = filter (\<lambda>x. k x = c) (rev xs)"
    by (rule sort_key_stable)
  then show ?thesis by (simp add: py_sort_reverse_def rev_filter [symmetric])
qed


lemma sort_compressed_numeric:
  "list_all (\<lambda>i. is_number_or_null (reranking_score (store ! i))) refs \<Longrightarrow>
   sort_compressed store refs
     = Inr (py_sort_reverse (\<lambda>i. number_key (reranking_score (store ! i))) refs)"
  by (simp add: sort_compressed_def)



lemma reached_items_valid:
  "response_pairs (reached_items (filter valid_item items)) = response_pairs (reached_items items)"
proof (induction items)
  case Nil
  show ?case by (simp add: reached_items_def)
next
  case (Cons it items)
  show ?case
  proof (cases it)
    case NonDictItem
    then show ?thesis using Cons.IH by (simp add: reached_items_def)
  next
    case (DictItem fo so)
    show ?thesis
    proof (cases fo)
      case None
      then show ?thesis using Cons.IH DictItem by (simp add: reached_items_def)
    next
      case (Some fv)
      show ?thesis
      proof (cases so)
        case None
        then show ?thesis using Cons.IH DictItem Some by (simp add: reached_items_def)
      next
        case (Some sv)
        then show ?thesis
          using Cons.IH DictItem \<open>fo = Some fv\<close>
          by (cases fv) (simp_all add: reached_items_def)
      qed
    qed
  qed
qed

lemma numeric_response_reached:
  "numeric_response items \<Longrightarrow> \<not> list_ex raising_item items"
proof (induction items)
  case Nil
  show ?case by simp
next
  case (Cons it items)
  then have "numeric_item it" and rest: "numeric_response items"
    by (simp_all add: numeric_response_def)
  then have "\<not> raising_item it"
    by (cases it rule: raising_item.cases) simp_all
  with Cons.IH [OF rest] show ?case by simp
qed

lemma numeric_response_pairs:
  "numeric_response items \<Longrightarrow> (f, s) \<in> set (response_pairs items) \<Longrightarrow> is_number_or_null s"
proof (induction items rule: response_pairs.induct)
  case 1
  then show ?case by simp
next
  case (2 g t items)
  then show ?case by (auto simp: numeric_response_def)
qed (auto simp: numeric_response_def)

lemma numeric_response_valid: "numeric_response items \<Longrightarrow> numeric_response (filter valid_item items)"
  by (simp add: numeric_response_def list_all_iff)

lemma process_response_numeric:
  assumes "numeric_response items"
  shows "\<exists>store refs. process_response documents items = (store, Inr refs)
           \<and> map ((!) store) refs = ranked_matches documents items
           \<and> mset refs = mset (matched_refs documents (response_pairs items))"
proof -
  obtain store refs raised where mr: "match_results documents items = ((store, refs), raised)"
    by (metis surj_pair)
  have all: "reached_items items = items"
    using numeric_response_reached [OF assms] by (rule reached_items_all)
  have raised: "raised = None"
    using match_results_store(3) [OF mr] numeric_response_reached [OF assms] by simp
  have refs: "refs = matched_refs documents (response_pairs items)"
    using match_results_store(2) [OF mr] all by simp
  have d: "map ((!) store) refs = matched_documents documents (response_pairs items)"
    using deref_matched [OF mr] all by simp
  have "is_number_or_null (reranking_score d)"
    if "d \<in> set (matched_documents documents (response_pairs items))" for d
  proof -
    from that obtain f s i sc where "last_score (response_pairs items) f = Some sc"
      and "d = (documents ! i)\<lparr>reranking_score := sc\<rparr>"
      by (auto simp: matched_documents_def set_map_filter split: option.splits)
    then show ?thesis
      using numeric_response_pairs [OF assms] last_score_mem by fastforce
  qed
  then have "list_all (\<lambda>d. is_number_or_null (reranking_score d)) (map ((!) store) refs)"
    by (simp add: d list_all_iff)
  then have num: "list_all (\<lambda>i. is_number_or_null (reranking_score (store ! i))) refs"
    by (simp add: list_all_iff)
  let ?sorted = "py_sort_reverse (\<lambda>i. number_key (reranking_score (store ! i))) refs"
  have pr: "process_response documents items = (store, Inr ?sorted)"
    using mr raised sort_compressed_numeric [OF num] by (simp add: process_response_def)
  have "map ((!) store) ?sorted = ranked_matches documents items"
    using py_sort_reverse_map [of "(!) store" rerank_score refs] d
    by (simp add: ranked_matches_def rerank_score_def)
  moreover have "mset ?sorted = mset (matched_refs documents (response_pairs items))"
    by (simp add: mset_py_sort_reverse refs)
  ultimately show ?thesis using pr by blast
qed


lemma process_response_store:
  assumes "process_response documents items = (store, r)"
  shows "length store = length documents"
    and "map format_document store = map format_document documents"
    and "\<And>i. i < length documents \<Longrightarrow> doc_id (store ! i) = doc_id (documents ! i)"
proof -
  obtain refs raised where mr: "match_results documents items = ((store, refs), raised)"
    using assms by (auto simp: process_response_def split: prod.splits option.splits)
  show "length store = length documents" by (rule match_results_store(1) [OF mr])
  show "map format_document store = map format_document documents" by (rule format_store [OF mr])
  show "doc_id (store ! i) = doc_id (documents ! i)" if "i < length documents" for i
    using store_same_but_score [OF mr that] by auto
qed


lemma first_top_n_map: "map g (first_top_n bound xs) = first_top_n bound (map g xs)"
  by (simp add: first_top_n_def take_map split: option.splits)


lemma rerank_async_body_result:
  assumes "documents \<noteq> []"
    and "rank_code_files reply query (make_codebase documents) (token_limit self)
           = (Inr results_list, evs)"
  shows "fst (rerank_async_body self reply query documents)
       = (case process_response documents results_list of
            (store, Inl e) \<Rightarrow> store
          | (store, Inr refs) \<Rightarrow> map ((!) store) (first_top_n (top_n self) refs))"
proof (cases "top_n self")
  case None
  then show ?thesis
    using assms
    by (simp add: rerank_async_body_def first_top_n_def split: prod.splits sum.splits)
next
  case (Some n)
  then show ?thesis
    using assms
    by (auto simp: rerank_async_body_def first_top_n_def py_take_def
        split: prod.splits sum.splits)
qed

lemma rank_code_files_sync_fst:
  "fst (rank_code_files_sync reply query codebase t) = fst (rank_code_files reply query codebase t)"
  by (simp add: rank_code_files_sync_def rank_code_files_def Let_def
      split: rerank_reply.splits rerank_body.splits results_value.splits)

lemma rerank_body_result:
  assumes "rank_code_files reply query (make_codebase documents) (token_limit self)
           = (Inr results_list, evs)"
  shows "fst (rerank_body self reply query documents)
       = (case process_response documents results_list of
            (store, Inl e) \<Rightarrow> store
          | (store, Inr refs) \<Rightarrow> map ((!) store) (first_top_n (top_n self) refs))"
proof -
  obtain evs' where sync:
    "rank_code_files_sync reply query (make_codebase documents) (token_limit self)
       = (Inr results_list, evs')"
    using rank_code_files_sync_fst [of reply query "make_codebase documents" "token_limit self"] assms
    by (cases "rank_code_files_sync reply query (make_codebase documents) (token_limit self)") simp
  show ?thesis
  proof (cases "top_n self")
    case None
    then show ?thesis
      using sync by (simp add: rerank_body_def first_top_n_def split: prod.splits sum.splits)
  next
    case (Some n)
    then show ?thesis
      using sync
      by (auto simp: rerank_body_def first_top_n_def py_take_def split: prod.splits sum.splits)
  qed
qed

lemma rerank_async_body_success:
  assumes "documents \<noteq> []"
    and "rank_code_files reply query (make_codebase documents) (token_limit self)
           = (Inr results_list, evs)"
    and "numeric_response results_list"
  shows "fst (rerank_async_body self reply query documents)
       = first_top_n (top_n self) (ranked_matches documents results_list)"
proof -
  obtain store refs where "process_response documents results_list = (store, Inr refs)"
    and "map ((!) store) refs = ranked_matches documents results_list"
    using process_response_numeric [OF assms(3), of documents] by blast
  then show ?thesis
    using rerank_async_body_result [OF assms(1,2)] by (simp add: first_top_n_map)
qed

lemma rerank_body_success:
  assumes "rank_code_files reply query (make_codebase documents) (token_limit self)
           = (Inr results_list, evs)"
    and "numeric_response results_list"
  shows "fst (rerank_body self reply query documents)
       = first_top_n (top_n self) (ranked_matches documents results_list)"
proof -
  obtain store refs where "process_response documents results_list = (store, Inr refs)"
    and "map ((!) store) refs = ranked_matches documents results_list"
    using process_response_numeric [OF assms(2), of documents] by blast
  then show ?thesis
    using rerank_body_result [OF assms(1)] by (simp add: first_top_n_map)
qed


text \<open>When processing the response raises, the reranker returns the input list, in its
  order and uncut; its Documents differ from the input in their scores at most.\<close>

lemma rerank_async_body_unprocessed:
  assumes "documents \<noteq> []"
    and "rank_code_files reply query (make_codebase documents) (token_limit self)
           = (Inr results_list, evs)"
    and "\<not> processed documents results_list"
  shows "map format_document (fst (rerank_async_body self reply query documents))
           = map format_document documents"
    and "map doc_id (fst (rerank_async_body self reply query documents)) = map doc_id documents"
proof -
  obtain store e where pr: "process_response documents results_list = (store, Inl e)"
    using assms(3)
    by (cases "process_response documents results_list")
       (auto simp: processed_def split: sum.splits)
  have r: "fst (rerank_async_body self reply query documents) = store"
    using rerank_async_body_result [OF assms(1,2)] pr by simp
  show f: "map format_document (fst (rerank_async_body self reply query documents))
           = map format_document documents"
    using process_response_store(2) [OF pr] r by simp
  have "map fd_id (map format_document (fst (rerank_async_body self reply query documents)))
      = map fd_id (map format_document documents)"
    using f by simp
  then show "map doc_id (fst (rerank_async_body self reply query documents)) = map doc_id documents"
    by (simp add: format_document_def comp_def)
qed

section \<open>Properties of the reranker\<close>

text \<open>
  C1, as stated, fails when two candidates share a name: both names match a pair of the
  response, but only the later candidate is returned. Here the first candidate is named
  \<^verbatim>\<open>auth.py\<close>, the response scores \<^verbatim>\<open>auth.py\<close> and \<^verbatim>\<open>db.py\<close>, and the returned
  list holds the third and the second candidate only.
\<close>

theorem same_name_document_dropped:
  "filename_of 0 doc_first = ''auth.py''
   \<and> map doc_id (fst (rerank_async_body plain_reranker two_scores ''login''
         [doc_first, doc_second, doc_third]))
     = [Some ''id-3'', Some ''id-2'']"
  by code_simp

text \<open>
  C1, amended. For every non-empty document list on which the rerank call succeeds with a
  response whose filenames are hashable and whose scores are numbers or \<^verbatim>\<open>null\<close>, the
  returned list is the first \<open>top_n\<close> entries (all of them when \<open>top_n\<close> is absent or not
  positive) of the ranked matches. The ranked matches hold one entry per pair of the
  response (an item with both keys and a string as filename) whose filename was sent, that
  entry being the last input document sent under that filename with the score of the last
  pair naming it; they are sorted descending by \<open>rerank_score\<close>, a \<^verbatim>\<open>null\<close> score
  counting as no score and coming after every number; entries with equal scores keep the
  provider-returned relative order; a document that no pair names is absent.
\<close>

theorem reranked_list_is_ranked_matches:
  assumes "documents \<noteq> []"
    and "rank_code_files reply query (make_codebase documents) (token_limit self)
           = (Inr results_list, evs)"
    and "numeric_response results_list"
  shows "fst (rerank_async_body self reply query documents)
           = first_top_n (top_n self) (ranked_matches documents results_list)
       \<and> mset (ranked_matches documents results_list)
           = mset (matched_documents documents (response_pairs results_list))
       \<and> sorted_wrt (\<lambda>a b. rerank_score b \<le> rerank_score a)
           (ranked_matches documents results_list)
       \<and> (\<forall>k. filter (\<lambda>d. rerank_score d = k) (ranked_matches documents results_list)
              = filter (\<lambda>d. rerank_score d = k)
                  (matched_documents documents (response_pairs results_list)))"
  using rerank_async_body_success [OF assms]
  by (simp add: ranked_matches_def mset_py_sort_reverse sorted_py_sort_reverse
      stable_py_sort_reverse)

theorem reranked_list_is_ranked_matches_witness:
  "[doc_first, doc_third] \<noteq> []
   \<and> rank_code_files two_scores ''login'' (make_codebase [doc_first, doc_third])
        (token_limit plain_reranker)
      = (Inr [scored ''auth.py'' 0.5, scored ''db.py'' 0.9],
         [RerankPost ''login'' (make_codebase [doc_first, doc_third]) 150000])
   \<and> numeric_response [scored ''auth.py'' 0.5, scored ''db.py'' 0.9]
   \<and> fst (rerank_async_body plain_reranker two_scores ''login'' [doc_first, doc_third])
      = ranked_matches [doc_first, doc_third] [scored ''auth.py'' 0.5, scored ''db.py'' 0.9]
   \<and> sorted_wrt (\<lambda>a b. rerank_score b \<le> rerank_score a)
        (fst (rerank_async_body plain_reranker two_scores ''login'' [doc_first, doc_third]))"
proof -
  have h1: "[doc_first, doc_third] \<noteq> []" by simp
  have h2: "rank_code_files two_scores ''login'' (make_codebase [doc_first, doc_third])
        (token_limit plain_reranker)
      = (Inr [scored ''auth.py'' 0.5, scored ''db.py'' 0.9],
         [RerankPost ''login'' (make_codebase [doc_first, doc_third]) 150000])"
    by (simp add: rank_code_files_def two_scores_def plain_reranker_def skipped_warnings_def
        make_codebase_def scored_def)
  have h3: "numeric_response [scored ''auth.py'' 0.5, scored ''db.py'' 0.9]"
    by (simp add: numeric_response_def scored_def)
  show ?thesis
    using reranked_list_is_ranked_matches [OF h1 h2 h3] h2 h3
    by (simp add: first_top_n_def plain_reranker_def)
qed

text \<open>
  C3, as stated, fails: of two documents named \<^verbatim>\<open>auth.py\<close>, the first receives no score and
  is not referenced; the second receives it.
\<close>

theorem first_document_with_name_gets_no_score:
  "filename_of 0 doc_first = filename_of 1 doc_second
   \<and> snd (fst (match_results [doc_first, doc_second] one_score)) = [1]
   \<and> reranking_score (fst (fst (match_results [doc_first, doc_second] one_score)) ! 0) = JNull
   \<and> reranking_score (fst (fst (match_results [doc_first, doc_second] one_score)) ! 1)
       = JNumber 0.9"
  by code_simp

text \<open>
  C3, amended. For every input document list in which several documents share a name, when
  rerank results are matched back to documents by name, only the last document with that
  name receives the returned score and enters the result (last-match-wins on name
  collision); an earlier document with that name is left as it was and is not referenced.
  The pair is one the loop gets to: every pair is, unless an item before it has a filename
  that cannot be hashed.
\<close>

theorem last_document_with_name_receives_score:
  assumes "last_named documents f = Some j"
    and "i < j"
    and "filename_of i (documents ! i) = f"
    and "(f, s) \<in> set (response_pairs (reached_items results_list))"
  shows "j \<in> set (snd (fst (match_results documents results_list)))
       \<and> Some (reranking_score (fst (fst (match_results documents results_list)) ! j))
           = last_score (response_pairs (reached_items results_list)) f
       \<and> i \<notin> set (snd (fst (match_results documents results_list)))
       \<and> fst (fst (match_results documents results_list)) ! i = documents ! i"
proof -
  obtain store refs raised where mr: "match_results documents results_list = ((store, refs), raised)"
    by (metis surj_pair)
  note refs = match_results_store(2) [OF mr]
  from assms(1) have j: "j < length documents" "filename_of j (documents ! j) = f"
    by (simp_all add: last_named_Some_iff)
  with assms(2) have i: "i < length documents" by simp
  obtain s' where s': "last_score (response_pairs (reached_items results_list)) f = Some s'"
    using last_score_Some_if_mem [OF assms(4)] by blast
  have "j \<in> set refs"
    using assms(1,4) by (force simp: refs matched_refs_def set_map_filter)
  moreover have "Some (reranking_score (store ! j))
      = last_score (response_pairs (reached_items results_list)) f"
    using match_results_store(4) [OF mr j(1)] j assms(1) s' by simp
  moreover have "i \<notin> set refs"
  proof
    assume "i \<in> set refs"
    then obtain g where "last_named documents g = Some i"
      by (auto simp: refs matched_refs_def set_map_filter)
    then have "last_named documents (filename_of i (documents ! i)) = Some i"
      by (simp add: last_named_Some_iff)
    with assms(1,2,3) show False by simp
  qed
  moreover have "store ! i = documents ! i"
    using match_results_store(4) [OF mr i] assms(1,2,3) by simp
  ultimately show ?thesis by (simp add: mr)
qed

theorem last_document_with_name_receives_score_witness:
  "last_named [doc_first, doc_second, doc_third] ''auth.py'' = Some 1
   \<and> (0::nat) < 1
   \<and> filename_of 0 ([doc_first, doc_second, doc_third] ! 0) = ''auth.py''
   \<and> (''auth.py'', JNumber 0.9) \<in> set (response_pairs (reached_items one_score))
   \<and> reranking_score (fst (fst (match_results [doc_first, doc_second, doc_third] one_score)) ! 1)
       = JNumber 0.9
   \<and> fst (fst (match_results [doc_first, doc_second, doc_third] one_score)) ! 0 = doc_first"
proof -
  have h1: "last_named [doc_first, doc_second, doc_third] ''auth.py'' = Some 1" by code_simp
  have h2: "(0::nat) < 1" by simp
  have h3: "filename_of 0 ([doc_first, doc_second, doc_third] ! 0) = ''auth.py''"
    by (simp add: filename_of_def doc_first_def)
  have h4: "(''auth.py'', JNumber 0.9) \<in> set (response_pairs (reached_items one_score))"
    by (simp add: one_score_def scored_def reached_items_def)
  have ls: "last_score (response_pairs (reached_items one_score)) ''auth.py'' = Some (JNumber 0.9)"
    by (simp add: one_score_def scored_def reached_items_def last_score_def)
  show ?thesis
    using last_document_with_name_receives_score [OF h1 h2 h3 h4] h1 h3 h4 ls by simp
qed

lemma top_n_warning_not_in_client:
  "top_n_warning \<notin> set (snd (rank_code_files reply query codebase t))"
  "top_n_warning \<notin> set (snd (rank_code_files_sync reply query codebase t))"
  by (auto simp: rank_code_files_def rank_code_files_sync_def top_n_warning_def
      skipped_warnings_def Let_def
      split: rerank_reply.splits rerank_body.splits results_value.splits)

lemma rerank_async_body_events:
  assumes "documents \<noteq> []"
  shows "top_n_warning \<in> set (snd (rerank_async_body self reply query documents))
       \<longleftrightarrow> (\<exists>n. top_n self = Some n \<and> n < 0)"
proof (cases "top_n self")
  case None
  then show ?thesis
    using assms
      top_n_warning_not_in_client(1) [of reply query "make_codebase documents" "token_limit self"]
    by (auto simp: rerank_async_body_def top_n_warning_def split: prod.splits sum.splits)
next
  case (Some n)
  then show ?thesis
    using assms
      top_n_warning_not_in_client(1) [of reply query "make_codebase documents" "token_limit self"]
    by (auto simp: rerank_async_body_def top_n_warning_def split: prod.splits sum.splits)
qed

lemma rerank_body_events:
  "top_n_warning \<notin> set (snd (rerank_body self reply query documents))"
  using top_n_warning_not_in_client(2) [of reply query "make_codebase documents" "token_limit self"]
  by (auto simp: rerank_body_def top_n_warning_def split: option.splits prod.splits sum.splits)

text \<open>
  C10, as stated, fails in its remark on logging: with \<open>top_n = 0\<close> the reranker returns
  all matched documents but logs no warning.
\<close>

theorem zero_top_n_logs_no_warning:
  "filter is_warning
     (snd (rerank_async_body zero_reranker two_scores ''login'' [doc_first, doc_third])) = []
   \<and> map doc_id (fst (rerank_async_body zero_reranker two_scores ''login'' [doc_first, doc_third]))
       = [Some ''id-3'', Some ''id-1'']"
  by code_simp

text \<open>
  C10, amended. For every rerank call configured with a non-positive \<open>top_n\<close> (zero or
  negative) on which the client succeeds with a response whose filenames are hashable and
  whose scores are numbers or \<^verbatim>\<open>null\<close>, the reranker applies no truncation: it returns
  all matched documents, and only a strictly positive \<open>top_n\<close> truncates. The asynchronous
  path logs the \<open>top_n\<close> warning exactly when \<open>top_n\<close> is negative and the candidate list is
  not empty (not when \<open>top_n\<close> is zero, and not on an empty list, which returns before the
  check); the synchronous path never logs it.
\<close>

theorem only_positive_top_n_truncates:
  assumes "top_n self = Some n"
    and "rank_code_files reply query (make_codebase documents) (token_limit self)
           = (Inr results_list, evs)"
    and "numeric_response results_list"
  shows "fst (rerank_async_body self reply query documents)
           = (if 0 < n then take (nat n) (ranked_matches documents results_list)
              else ranked_matches documents results_list)
       \<and> fst (rerank_body self reply query documents)
           = (if 0 < n then take (nat n) (ranked_matches documents results_list)
              else ranked_matches documents results_list)
       \<and> (top_n_warning \<in> set (snd (rerank_async_body self reply query documents))
            \<longleftrightarrow> n < 0 \<and> documents \<noteq> [])
       \<and> top_n_warning \<notin> set (snd (rerank_body self reply query documents))"
proof -
  have b: "fst (rerank_body self reply query documents)
           = (if 0 < n then take (nat n) (ranked_matches documents results_list)
              else ranked_matches documents results_list)"
    using rerank_body_success [OF assms(2,3)] assms(1) by (simp add: first_top_n_def)
  have a: "fst (rerank_async_body self reply query documents)
           = (if 0 < n then take (nat n) (ranked_matches documents results_list)
              else ranked_matches documents results_list)"
  proof (cases "documents = []")
    case True
    then have "fst (rerank_async_body self reply query documents) = []"
      and "fst (rerank_body self reply query documents) = []"
      by (simp_all add: rerank_async_body_def rerank_body_def rank_code_files_sync_def
          make_codebase_def process_response_def match_results_def sort_compressed_def
          py_sort_reverse_def py_take_def split: option.splits)
    with b show ?thesis by simp
  next
    case False
    then show ?thesis
      using rerank_async_body_success [OF False assms(2,3)] assms(1) by (simp add: first_top_n_def)
  qed
  have c: "top_n_warning \<in> set (snd (rerank_async_body self reply query documents))
            \<longleftrightarrow> n < 0 \<and> documents \<noteq> []"
  proof (cases "documents = []")
    case True
    then show ?thesis by (simp add: rerank_async_body_def)
  next
    case False
    then show ?thesis using rerank_async_body_events [OF False] assms(1) by simp
  qed
  from a b c rerank_body_events show ?thesis by simp
qed

theorem only_positive_top_n_truncates_witness:
  "top_n negative_reranker = Some (- 1)
   \<and> rank_code_files two_scores ''login'' (make_codebase [doc_first, doc_third])
        (token_limit negative_reranker)
      = (Inr [scored ''auth.py'' 0.5, scored ''db.py'' 0.9],
         [RerankPost ''login'' (make_codebase [doc_first, doc_third]) 150000])
   \<and> numeric_response [scored ''auth.py'' 0.5, scored ''db.py'' 0.9]
   \<and> fst (rerank_async_body negative_reranker two_scores ''login'' [doc_first, doc_third])
      = ranked_matches [doc_first, doc_third] [scored ''auth.py'' 0.5, scored ''db.py'' 0.9]
   \<and> top_n_warning \<in> set (snd (rerank_async_body negative_reranker two_scores ''login''
        [doc_first, doc_third]))"
proof -
  have h1: "top_n negative_reranker = Some (- 1)" by (simp add: negative_reranker_def)
  have h2: "rank_code_files two_scores ''login'' (make_codebase [doc_first, doc_third])
        (token_limit negative_reranker)
      = (Inr [scored ''auth.py'' 0.5, scored ''db.py'' 0.9],
         [RerankPost ''login'' (make_codebase [doc_first, doc_third]) 150000])"
    by (simp add: rank_code_files_def two_scores_def negative_reranker_def skipped_warnings_def
        make_codebase_def scored_def)
  have h3: "numeric_response [scored ''auth.py'' 0.5, scored ''db.py'' 0.9]"
    by (simp add: numeric_response_def scored_def)
  show ?thesis
    using only_positive_top_n_truncates [OF h1 h2 h3] h1 h2 h3 by simp
qed

section \<open>The retriever as a function of its inputs\<close>



lemma make_codebase_Nil_iff: "make_codebase documents = [] \<longleftrightarrow> documents = []"
  by (simp add: make_codebase_def enumerate_eq_zip)




lemma retriever_unnormalized:
  assumes "normalize_hits namespace hits = Inl e"
  shows "fst (retriever env (SearchList hits) reply query namespace rerank_on top_k kw) = None"
proof -
  have "hits \<noteq> []" using assms by auto
  with assms show ?thesis by (simp add: retriever_def Let_def)
qed







section \<open>Properties of the rerank client and of the orchestrators\<close>

lemma rank_code_files_posts:
  "codebase \<noteq> [] \<Longrightarrow>
   filter posts_empty_codebase (snd (rank_code_files reply query codebase t)) = []"
  by (auto simp: rank_code_files_def skipped_warnings_def Let_def filter_empty_conv
      split: rerank_reply.splits rerank_body.splits results_value.splits)

lemma rerank_async_posts:
  "filter posts_empty_codebase (snd (rerank_async self reply query documents)) = []"
proof (cases "documents = []")
  case True
  then show ?thesis by (simp add: rerank_async_def rerank_async_body_def)
next
  case False
  then have cb: "make_codebase documents \<noteq> []" by (simp add: make_codebase_Nil_iff)
  show ?thesis
    using False rank_code_files_posts [OF cb, of reply query "token_limit self"]
    by (auto simp: rerank_async_def rerank_async_body_def
        split: prod.splits sum.splits option.splits)
qed

lemma rerank_async_posts_events:
  "rerank_async self reply query documents = (out, evs) \<Longrightarrow>
   filter posts_empty_codebase evs = []"
  using rerank_async_posts [of self reply query documents] by simp

lemma retriever_posts:
  "filter posts_empty_codebase
     (snd (retriever env search_reply reply query namespace rerank_on top_k kw)) = []"
  using rerank_async_posts_events
  by (auto simp: retriever_def Let_def split: search_reply.splits prod.splits sum.splits)

text \<open>Inputs that the provider's contract excludes and the code accepts: a \<^verbatim>\<open>null\<close>
  score keeps its document, after the scored ones; a string score beside a number makes the
  sort raise, and the input list comes back with an error logged; a dictionary hit with
  \<^verbatim>\<open>null\<close> as metadata fails the retrieval.\<close>

lemma null_score_is_kept_last:
  "map (\<lambda>d. (doc_id d, reranking_score d))
     (fst (rerank_async_body plain_reranker null_score ''login'' [doc_first, doc_third]))
   = [(Some ''id-3'', JNumber 0.9), (Some ''id-1'', JNull)]"
  by code_simp

lemma unsortable_scores_return_input:
  "map doc_id (fst (rerank_async_body plain_reranker text_and_number ''login''
     [doc_first, doc_third])) = [Some ''id-1'', Some ''id-3'']
   \<and> filter (\<lambda>e. e = LogError ''Error reranking documents'')
        (snd (rerank_async_body plain_reranker text_and_number ''login'' [doc_first, doc_third]))
       = [LogError ''Error reranking documents'']"
  by code_simp

lemma null_metadata_fails_retrieval:
  "retriever env_ok (SearchList [hit_auth, hit_null_metadata]) two_scores ''login'' None True
     None None
   = (None, [SearchCall ''login'' 5 None, LogError ''Error during async retrieval''])"
  by code_simp

text \<open>
  C8. Reranking is never invoked with zero candidates. A rerank call with an empty candidate
  list returns an empty sequence and makes no network call: this holds for the asynchronous
  reranker (which logs nothing at all), for the client's \<^verbatim>\<open>rank_code_files\<close> and for the
  synchronous reranker; and no run of the retriever ever posts an empty codebase to the
  rerank endpoint.
\<close>

theorem rerank_empty_candidates_no_network:
  "rerank_async self reply query [] = ([], [])
   \<and> fst (rank_code_files reply query [] t) = Inr []
   \<and> network_calls (snd (rank_code_files reply query [] t)) = []
   \<and> fst (rerank self reply query []) = []
   \<and> network_calls (snd (rerank self reply query [])) = []
   \<and> filter posts_empty_codebase
        (snd (retriever env search_reply reply query namespace rerank_on top_k kw)) = []"
  using retriever_posts [of env search_reply reply query namespace rerank_on top_k kw]
  by (simp add: rerank_async_def rerank_async_body_def rank_code_files_def network_calls_def
      rerank_def rerank_body_def rank_code_files_sync_def make_codebase_def process_response_def
      match_results_def sort_compressed_def py_sort_reverse_def py_take_def split: option.splits)



text \<open>
  C6, as stated, fails: an empty query is not validated. With both credentials set, a call
  with the empty query goes on to the vector search (a network call) and returns a list, not
  a failure.
\<close>

theorem empty_query_reaches_network:
  "retriever env_ok (SearchList []) RerankTransportFailure [] None True None None
     = (Some [], [SearchCall [] 5 None])"
  by (simp add: retriever_def env_ok_def truthy_def get_default_def Let_def)

text \<open>
  C6, amended. For every retrieval call with a required provider credential absent
  (\<^verbatim>\<open>PINECONE_API_KEY\<close> or \<^verbatim>\<open>RELACE_API_KEY\<close> unset or empty), the call returns the failure
  outcome before any network call is made, in both orchestrators.
\<close>

theorem missing_credential_fails_before_network:
  "\<not> truthy (PINECONE_API_KEY env) \<or> \<not> truthy (RELACE_API_KEY env) \<Longrightarrow>
   fst (retriever env search_reply rerank_reply query namespace rerank_on top_k kw) = None
   \<and> network_calls
        (snd (retriever env search_reply rerank_reply query namespace rerank_on top_k kw)) = []
   \<and> fst (pinecone_retriever env indexes embed_reply query_reply query num_documents
             repo_namespace) = None
   \<and> network_calls
        (snd (pinecone_retriever env indexes embed_reply query_reply query num_documents
                repo_namespace)) = []"
  by (auto simp: retriever_def pinecone_retriever_def network_calls_def)

theorem missing_credential_fails_before_network_witness:
  "\<not> truthy (RELACE_API_KEY env_no_relace)
   \<and> retriever env_no_relace (SearchList []) RerankTransportFailure ''auth'' None True None None
       = (None, [LogError ''RELACE_API_KEY environment variable is required''])
   \<and> fst (pinecone_retriever env_no_relace (IndexNames [''codebase-index-v2''])
             EmbedTransportFailure QueryRaises ''auth'' 5 None) = None"
  using missing_credential_fails_before_network
    [of env_no_relace "SearchList []" RerankTransportFailure "''auth''" None True None None
        "IndexNames [''codebase-index-v2'']" EmbedTransportFailure QueryRaises 5 None]
  by (simp add: retriever_def env_no_relace_def truthy_def)

text \<open>
  C5, as stated, fails for the embedding client of the reranking retriever: on a 200 answer
  whose body has neither key, \<^verbatim>\<open>RelaceEmbedder.get_embedding\<close> raises nothing and signals
  no failure; it logs a warning and returns the empty vector. \<^verbatim>\<open>retriever\<close> hands this
  embedder to the vector database and has no check of its own.
\<close>

theorem embedder_returns_empty_vector:
  "get_embedding (EmbedHttp 200 (EmbedObject body_without_fields)) ''auth''
     = ([], [EmbedPost [''auth''], LogWarning ''No embeddings found in response''])"
  by (simp add: get_embedding_def generate_embeddings_sync_def field_entries_def
      body_without_fields_def)

text \<open>
  C5, amended. When the embedding provider answers with a 2xx status and a JSON object that
  has neither a \<^verbatim>\<open>results\<close> key nor a \<^verbatim>\<open>data\<close> key, \<^verbatim>\<open>pinecone_retriever\<close> returns the
  failure outcome \<^verbatim>\<open>None\<close> and attempts no vector search.
  \<^verbatim>\<open>RelaceEmbedder.get_embedding\<close> does not fail on such an answer: it returns the empty
  vector, and when the status is 200 it has made the one request and logged the warning
  that no embeddings were found.
\<close>

theorem unrecognised_embedding_body:
  "200 \<le> status \<Longrightarrow> status < 300 \<Longrightarrow> eb_results data = Absent \<Longrightarrow> eb_data data = Absent \<Longrightarrow>
   fst (pinecone_retriever env indexes (EmbedHttp status (EmbedObject data)) query_reply query
          num_documents repo_namespace) = None
   \<and> filter is_vector_search
        (snd (pinecone_retriever env indexes (EmbedHttp status (EmbedObject data)) query_reply
                query num_documents repo_namespace)) = []
   \<and> fst (get_embedding (EmbedHttp status (EmbedObject data)) text) = []
   \<and> get_embedding (EmbedHttp 200 (EmbedObject data)) text
       = ([], [EmbedPost [text], LogWarning ''No embeddings found in response''])"
  by (auto simp: pinecone_retriever_def field_entries_def get_embedding_def
      generate_embeddings_sync_def split: list_indexes_reply.splits)

theorem unrecognised_embedding_body_witness:
  "(200::int) \<le> 200 \<and> (200::int) < 300
   \<and> eb_results body_without_fields = Absent \<and> eb_data body_without_fields = Absent
   \<and> pinecone_retriever env_ok (IndexNames [''codebase-index-v2''])
        (EmbedHttp 200 (EmbedObject body_without_fields)) (QueryMatches []) ''auth'' 5 None
       = (None, [ListIndexes, EmbedPost [''auth''], LogError ''No embedding data in response''])
   \<and> fst (get_embedding (EmbedHttp 200 (EmbedObject body_without_fields)) ''auth'') = []"
  using unrecognised_embedding_body
    [of 200 body_without_fields env_ok "IndexNames [''codebase-index-v2'']" "QueryMatches []"
        "''auth''" 5 None "''auth''"]
  by (simp add: pinecone_retriever_def env_ok_def truthy_def get_default_def
      field_entries_def body_without_fields_def)











end
